theory Spec2Isabelle
  imports Complex_Main
begin

section \<open>Data model of the dashboard script (app.py)\<close>

text \<open>
  A pandas timestamp is a count of nanoseconds since the epoch, or NaT, the missing
  timestamp. NaT is \<open>None\<close>. A numeric cell is a finite float64 number, taken as the real
  number it denotes, or NaN, the missing value; NaN is \<open>None\<close>. Every comparison with NaT
  or NaN is false, as in pandas and Python.
\<close>

type_synonym timestamp = "int option"
type_synonym cell = "real option"

record crypto_row =
  c_date :: timestamp
  c_fear_greed_index :: cell
  c_btc_price :: cell

record stock_row =
  s_date :: timestamp
  s_fear_greed_index :: cell
  s_price :: cell

text \<open>
  A row of \<open>merged_df\<close>. The two \<open>fear_greed_index\<close> columns collide and take the
  suffixes \<open>_crypto\<close> and \<open>_stock\<close>; \<open>btc_price\<close> and \<open>price\<close> keep their names.
\<close>

record merged_row =
  date :: timestamp
  fear_greed_index_crypto :: cell
  btc_price :: cell
  fear_greed_index_stock :: cell
  price :: cell

subsection \<open>Timestamps\<close>

fun ts_ge :: "timestamp \<Rightarrow> timestamp \<Rightarrow> bool" where
  "ts_ge (Some a) (Some b) = (a \<ge> b)"
| "ts_ge _ _ = False"

fun ts_le :: "timestamp \<Rightarrow> timestamp \<Rightarrow> bool" where
  "ts_le (Some a) (Some b) = (a \<le> b)"
| "ts_le _ _ = False"

fun ts_gt :: "timestamp \<Rightarrow> timestamp \<Rightarrow> bool" where
  "ts_gt (Some a) (Some b) = (a > b)"
| "ts_gt _ _ = False"

fun ts_lt :: "timestamp \<Rightarrow> timestamp \<Rightarrow> bool" where
  "ts_lt (Some a) (Some b) = (a < b)"
| "ts_lt _ _ = False"

text \<open>Python's two-argument \<open>max\<close> and \<open>min\<close>: the first argument stays unless the
  second one compares strictly beyond it.\<close>

definition py_max :: "timestamp \<Rightarrow> timestamp \<Rightarrow> timestamp" where
  "py_max a b = (if ts_gt b a then b else a)"

definition py_min :: "timestamp \<Rightarrow> timestamp \<Rightarrow> timestamp" where
  "py_min a b = (if ts_lt b a then b else a)"

text \<open>\<open>Series.min()\<close> and \<open>Series.max()\<close> of a timestamp column skip NaT and give NaT
  when nothing is left.\<close>

fun series_min :: "timestamp list \<Rightarrow> timestamp" where
  "series_min [] = None"
| "series_min (None # ts) = series_min ts"
| "series_min (Some a # ts) =
     (case series_min ts of None \<Rightarrow> Some a | Some b \<Rightarrow> Some (min a b))"

fun series_max :: "timestamp list \<Rightarrow> timestamp" where
  "series_max [] = None"
| "series_max (None # ts) = series_max ts"
| "series_max (Some a # ts) =
     (case series_max ts of None \<Rightarrow> Some a | Some b \<Rightarrow> Some (max a b))"

definition ns_per_day :: int where
  "ns_per_day = 86400000000000"

text \<open>\<open>pd.Timedelta(days=n)\<close>, and a timestamp minus a timedelta (NaT stays NaT).\<close>

definition Timedelta_days :: "int \<Rightarrow> int" where
  "Timedelta_days n = n * ns_per_day"

fun ts_sub :: "timestamp \<Rightarrow> int \<Rightarrow> timestamp" where
  "ts_sub (Some a) d = Some (a - d)"
| "ts_sub None d = None"

section \<open>The common date range and the merge (app.py, lines 98 to 112)\<close>

definition min_date :: "crypto_row list \<Rightarrow> stock_row list \<Rightarrow> timestamp" where
  "min_date crypto_df stock_df =
     py_max (series_min (map c_date crypto_df)) (series_min (map s_date stock_df))"

definition max_date :: "crypto_row list \<Rightarrow> stock_row list \<Rightarrow> timestamp" where
  "max_date crypto_df stock_df =
     py_min (series_max (map c_date crypto_df)) (series_max (map s_date stock_df))"

definition crypto_filtered :: "crypto_row list \<Rightarrow> stock_row list \<Rightarrow> crypto_row list" where
  "crypto_filtered crypto_df stock_df =
     filter (\<lambda>r. ts_ge (c_date r) (min_date crypto_df stock_df)
                \<and> ts_le (c_date r) (max_date crypto_df stock_df)) crypto_df"

definition stock_filtered :: "crypto_row list \<Rightarrow> stock_row list \<Rightarrow> stock_row list" where
  "stock_filtered crypto_df stock_df =
     filter (\<lambda>r. ts_ge (s_date r) (min_date crypto_df stock_df)
                \<and> ts_le (s_date r) (max_date crypto_df stock_df)) stock_df"

definition join_rows :: "crypto_row \<Rightarrow> stock_row \<Rightarrow> merged_row" where
  "join_rows c s =
     \<lparr> date = c_date c,
       fear_greed_index_crypto = c_fear_greed_index c,
       btc_price = c_btc_price c,
       fear_greed_index_stock = s_fear_greed_index s,
       price = s_price s \<rparr>"

text \<open>
  \<open>pd.merge(left, right, on='date', how='inner')\<close>: one row for every pair of a left and
  a right row with the same key. The claims speak of the rows of the result, not of
  their order.
\<close>

definition pd_merge :: "crypto_row list \<Rightarrow> stock_row list \<Rightarrow> merged_row list" where
  "pd_merge left right =
     concat (map (\<lambda>c. map (join_rows c) (filter (\<lambda>s. s_date s = c_date c) right)) left)"

definition merged_df :: "crypto_row list \<Rightarrow> stock_row list \<Rightarrow> merged_row list" where
  "merged_df crypto_df stock_df =
     pd_merge (crypto_filtered crypto_df stock_df) (stock_filtered crypto_df stock_df)"

section \<open>The two views of the merged table (app.py, lines 133 to 159)\<close>

text \<open>\<open>Series.dt.date\<close>: the calendar day of a timestamp, as a day number.\<close>

fun dt_date :: "timestamp \<Rightarrow> int option" where
  "dt_date (Some a) = Some (a div ns_per_day)"
| "dt_date None = None"

text \<open>
  The chart view. \<open>date_range\<close> is what the date picker returns: a tuple of zero, one
  or two calendar days, given here as day numbers.
\<close>

definition merged_filtered :: "merged_row list \<Rightarrow> int list \<Rightarrow> merged_row list" where
  "merged_filtered m date_range =
     (if length date_range = 2
      then filter (\<lambda>r. ts_ge (dt_date (date r)) (Some (date_range ! 0))
                     \<and> ts_le (dt_date (date r)) (Some (date_range ! 1))) m
      else m)"

text \<open>The correlation input, chosen by the name of the correlation period.\<close>

definition last_days :: "merged_row list \<Rightarrow> int \<Rightarrow> merged_row list" where
  "last_days m n =
     filter (\<lambda>r. ts_ge (date r) (ts_sub (series_max (map date m)) (Timedelta_days n))) m"

definition corr_data :: "merged_row list \<Rightarrow> string \<Rightarrow> merged_row list" where
  "corr_data m correlation_period =
     (if correlation_period = ''Last 1 Year'' then last_days m 365
      else if correlation_period = ''Last 6 Months'' then last_days m 180
      else if correlation_period = ''Last 3 Months'' then last_days m 90
      else if correlation_period = ''Last 1 Month'' then last_days m 30
      else m)"

section \<open>Correlation (app.py, lines 161 to 164)\<close>

text \<open>
  \<open>Series.corr\<close> keeps the pairs in which both cells are present and is NaN when no
  pair is left. Otherwise it is \<open>numpy.corrcoef\<close> of the two series: the covariance
  divided by both standard deviations, computed in float64 and then clipped to
  \<open>[-1, 1]\<close>.

  The float64 arithmetic of that quotient is not modelled: rounding decides, for
  instance, whether a constant series has a variance of exactly zero. It enters as the
  parameter \<open>fp\<close>: \<open>fp xs ys\<close> is the float64 value that numpy computes, before clipping,
  for two series of at least two numbers each. It may be NaN or infinite. With a single
  pair numpy's covariance matrix is \<open>0 * (1 / 0)\<close>, which is NaN whatever the numbers are.
\<close>

datatype float64 = FNaN | FNegInf | FNum real | FPosInf

type_synonym pearson_fp = "real list \<Rightarrow> real list \<Rightarrow> float64"

fun both_present :: "cell \<times> cell \<Rightarrow> (real \<times> real) option" where
  "both_present (Some x, Some y) = Some (x, y)"
| "both_present _ = None"

definition valid_pairs :: "cell list \<Rightarrow> cell list \<Rightarrow> (real \<times> real) list" where
  "valid_pairs a b = List.map_filter both_present (zip a b)"

text \<open>\<open>numpy.clip(c, -1, 1)\<close>: NaN stays NaN, every other value ends in \<open>[-1, 1]\<close>.\<close>

fun clip :: "float64 \<Rightarrow> cell" where
  "clip FNaN = None"
| "clip FNegInf = Some (- 1)"
| "clip FPosInf = Some 1"
| "clip (FNum r) = Some (if r < - 1 then - 1 else if r > 1 then 1 else r)"

definition corrcoef :: "pearson_fp \<Rightarrow> real list \<Rightarrow> real list \<Rightarrow> cell" where
  "corrcoef fp xs ys = (if length xs < 2 then None else clip (fp xs ys))"

definition corr :: "pearson_fp \<Rightarrow> cell list \<Rightarrow> cell list \<Rightarrow> cell" where
  "corr fp a b =
     (let ps = valid_pairs a b in
      if length ps < 1 then None else corrcoef fp (map fst ps) (map snd ps))"

record corr_result =
  correlation_fg :: cell
  correlation_price_fg_crypto :: cell
  correlation_price_fg_stock :: cell
  correlation_price :: cell

definition correlate :: "pearson_fp \<Rightarrow> merged_row list \<Rightarrow> corr_result" where
  "correlate fp cd =
     \<lparr> correlation_fg =
         corr fp (map fear_greed_index_crypto cd) (map fear_greed_index_stock cd),
       correlation_price_fg_crypto =
         corr fp (map btc_price cd) (map fear_greed_index_crypto cd),
       correlation_price_fg_stock =
         corr fp (map price cd) (map fear_greed_index_stock cd),
       correlation_price =
         corr fp (map btc_price cd) (map price cd) \<rparr>"

text \<open>
  A coefficient is in range when it is NaN or a number of \<open>[-1, 1]\<close>. The inputs on which
  the coefficient of two columns is undefined: fewer than two pairs with both cells
  present, or a float64 quotient that is NaN (as \<open>0 / 0\<close> is, the quotient of a series
  whose computed variance is exactly zero).
\<close>

definition unit_or_nan :: "cell \<Rightarrow> bool" where
  "unit_or_nan v = (case v of None \<Rightarrow> True | Some r \<Rightarrow> - 1 \<le> r \<and> r \<le> 1)"

definition undefined_input :: "pearson_fp \<Rightarrow> cell list \<Rightarrow> cell list \<Rightarrow> bool" where
  "undefined_input fp a b =
     (let ps = valid_pairs a b in
      length ps < 2 \<or> fp (map fst ps) (map snd ps) = FNaN)"

subsection \<open>The quotient without rounding\<close>

text \<open>
  The Pearson quotient in exact arithmetic, with the covariance of divisor \<open>n - 1\<close>; the
  quotient \<open>0 / 0\<close> of a series without variance is NaN. It is the value that float64
  arithmetic approximates, and the value numpy computes wherever no operation rounds, as
  on the small whole numbers of the example tables below. The claims are proved for
  every \<open>fp\<close>; this one serves in the examples.
\<close>

definition mean :: "real list \<Rightarrow> real" where
  "mean xs = sum_list xs / real (length xs)"

definition cov :: "real list \<Rightarrow> real list \<Rightarrow> real" where
  "cov xs ys =
     sum_list (map (\<lambda>(x, y). (x - mean xs) * (y - mean ys)) (zip xs ys))
       / (real (length xs) - 1)"

definition dev_sum :: "real list \<Rightarrow> real list \<Rightarrow> real" where
  "dev_sum xs ys = sum_list (map (\<lambda>(x, y). (x - mean xs) * (y - mean ys)) (zip xs ys))"

definition exact_pearson :: pearson_fp where
  "exact_pearson xs ys =
     (if cov xs xs = 0 \<or> cov ys ys = 0 then FNaN
      else FNum (cov xs ys / sqrt (cov xs xs) / sqrt (cov ys ys)))"

section \<open>Insight text (app.py, lines 191 to 205)\<close>

text \<open>
  An f-string is a sequence of literal pieces and formatted fields. \<open>F2 r\<close> is the
  field \<open>{r:.2f}\<close>; a field that holds a conditional expression over two string
  literals is the chosen literal.
\<close>

datatype fpart = Lit string | F2 cell

fun f_abs :: "cell \<Rightarrow> cell" where
  "f_abs (Some x) = Some \<bar>x\<bar>"
| "f_abs None = None"

fun f_gt :: "cell \<Rightarrow> real \<Rightarrow> bool" where
  "f_gt (Some x) t = (x > t)"
| "f_gt None t = False"

definition insight_fg :: "cell \<Rightarrow> fpart list" where
  "insight_fg r =
     (if f_gt (f_abs r) (7 / 10) then
        [Lit ''Strong '', Lit (if f_gt r 0 then ''positive'' else ''negative''),
         Lit '' correlation ('', F2 r,
         Lit '') between crypto and stock market sentiment, suggesting market sentiment tends to move '',
         Lit (if f_gt r 0 then ''together'' else ''in opposite directions''), Lit ''.'']
      else if f_gt (f_abs r) (3 / 10) then
        [Lit ''Moderate '', Lit (if f_gt r 0 then ''positive'' else ''negative''),
         Lit '' correlation ('', F2 r,
         Lit '') between crypto and stock market sentiment.'']
      else
        [Lit ''Weak correlation ('', F2 r,
         Lit '') between crypto and stock market sentiment, suggesting these markets may be driven by different factors.''])"

definition insight_price :: "cell \<Rightarrow> fpart list" where
  "insight_price r =
     (if f_gt (f_abs r) (7 / 10) then
        [Lit ''Strong '', Lit (if f_gt r 0 then ''positive'' else ''negative''),
         Lit '' correlation ('', F2 r,
         Lit '') between Bitcoin and S&P 500 prices, indicating '',
         Lit (if f_gt r 0 then ''potential market integration''
              else ''a potential hedging relationship''), Lit ''.'']
      else if f_gt (f_abs r) (3 / 10) then
        [Lit ''Moderate '', Lit (if f_gt r 0 then ''positive'' else ''negative''),
         Lit '' correlation ('', F2 r,
         Lit '') between Bitcoin and S&P 500 prices.'']
      else
        [Lit ''Weak correlation ('', F2 r,
         Lit '') between Bitcoin and S&P 500 prices, suggesting Bitcoin may still offer diversification benefits.''])"

definition insights :: "corr_result \<Rightarrow> fpart list list" where
  "insights c = [] @ [insight_fg (correlation_fg c)] @ [insight_price (correlation_price c)]"

text \<open>The leading word of an insight, and whether a word occurs in one of its literals.\<close>

fun bucket :: "fpart list \<Rightarrow> string" where
  "bucket (Lit s # _) = takeWhile (\<lambda>ch. ch \<noteq> CHR '' '') s"
| "bucket _ = []"

fun occurs_at :: "string \<Rightarrow> string \<Rightarrow> bool" where
  "occurs_at w [] = (w = [])"
| "occurs_at w (ch # s) = (take (length w) (ch # s) = w \<or> occurs_at w s)"

fun mentions :: "string \<Rightarrow> fpart list \<Rightarrow> bool" where
  "mentions w [] = False"
| "mentions w (Lit s # ps) = (occurs_at w s \<or> mentions w ps)"
| "mentions w (F2 r # ps) = mentions w ps"

definition directional :: "fpart list \<Rightarrow> bool" where
  "directional ps =
     (mentions ''positive'' ps \<or> mentions ''negative'' ps
      \<or> mentions ''together'' ps \<or> mentions ''opposite directions'' ps)"

section \<open>Loading and the script as a whole (app.py, lines 71 to 97 and 509 to 510)\<close>

datatype exn = FileNotFoundError string | ReadError string

text \<open>
  The file system as the script sees it: \<open>os.listdir\<close> of a directory (\<open>None\<close> when the
  directory is missing, where Python raises), and \<open>pd.read_csv\<close> followed by
  \<open>pd.to_datetime\<close> on the date column, which gives a table or raises.
\<close>

record filesystem =
  listdir :: "string \<Rightarrow> string list option"
  read_crypto :: "string \<Rightarrow> exn + crypto_row list"
  read_stock :: "string \<Rightarrow> exn + stock_row list"

definition endswith :: "string \<Rightarrow> string \<Rightarrow> bool" where
  "endswith f suf = (length suf \<le> length f \<and> drop (length f - length suf) f = suf)"

fun str_gt :: "string \<Rightarrow> string \<Rightarrow> bool" where
  "str_gt [] _ = False"
| "str_gt (x # xs) [] = True"
| "str_gt (x # xs) (y # ys) =
     ((of_char x :: nat) > of_char y \<or> (x = y \<and> str_gt xs ys))"

text \<open>Python's \<open>max\<close> of a list of strings; \<open>None\<close> stands for the empty list, which the
  script guards against.\<close>

fun max_str :: "string list \<Rightarrow> string option" where
  "max_str [] = None"
| "max_str (f # fs) = Some (fold (\<lambda>g best. if str_gt g best then g else best) fs f)"

definition path_join :: "string \<Rightarrow> string \<Rightarrow> string" where
  "path_join d f = d @ ''/'' @ f"

text \<open>
  \<open>load_data\<close> gives the messages it shows with \<open>st.error\<close> and the two tables, or
  \<open>None\<close> for the pair \<open>(None, None)\<close>; \<open>Inl\<close> is an exception that leaves the function.
\<close>

definition load_data ::
  "filesystem \<Rightarrow> exn + (string list \<times> (crypto_row list \<times> stock_row list) option)" where
  "load_data fs =
     (case listdir fs ''crypto_fg_index'' of
        None \<Rightarrow> Inl (FileNotFoundError ''crypto_fg_index'')
      | Some cfs \<Rightarrow>
          let crypto_files = filter (\<lambda>f. endswith f ''.csv'') cfs;
              latest_crypto_file = (if crypto_files \<noteq> [] then max_str crypto_files else None)
          in
          (case listdir fs ''stock_fg_index'' of
             None \<Rightarrow> Inl (FileNotFoundError ''stock_fg_index'')
           | Some sfs \<Rightarrow>
               let stock_files = filter (\<lambda>f. endswith f ''.csv'') sfs;
                   latest_stock_file = (if stock_files \<noteq> [] then max_str stock_files else None)
               in
               (case (latest_crypto_file, latest_stock_file) of
                  (Some cf, Some sf) \<Rightarrow>
                    (case read_crypto fs (path_join ''crypto_fg_index'' cf) of
                       Inl e \<Rightarrow> Inl e
                     | Inr crypto_df \<Rightarrow>
                         (case read_stock fs (path_join ''stock_fg_index'' sf) of
                            Inl e \<Rightarrow> Inl e
                          | Inr stock_df \<Rightarrow> Inr ([], Some (crypto_df, stock_df))))
                | _ \<Rightarrow> Inr ([''Data files not found!''], None))))"

text \<open>
  What the two sidebar widgets return. Their own checks of the values offered to them
  belong to the presentation layer and are not part of the model.
\<close>

record controls =
  date_range :: "int list"
  correlation_period :: string

record dashboard =
  merged :: "merged_row list"
  chart_view :: "merged_row list"
  corr_input :: "merged_row list"
  correlations :: corr_result
  insight_cards :: "fpart list list"

text \<open>
  One run of the script: an uncaught exception, the error page of the \<open>else\<close> branch
  with every message shown by \<open>st.error\<close>, or the dashboard.
\<close>

datatype outcome = Raised exn | LoadFailed "string list" | Dashboard dashboard

definition render ::
  "pearson_fp \<Rightarrow> crypto_row list \<Rightarrow> stock_row list \<Rightarrow> controls \<Rightarrow> dashboard" where
  "render fp crypto_df stock_df ui =
     (let m = merged_df crypto_df stock_df;
          mf = merged_filtered m (date_range ui);
          cd = corr_data m (correlation_period ui);
          c = correlate fp cd
      in \<lparr> merged = m, chart_view = mf, corr_input = cd,
            correlations = c, insight_cards = insights c \<rparr>)"

definition app :: "pearson_fp \<Rightarrow> filesystem \<Rightarrow> controls \<Rightarrow> outcome" where
  "app fp fs ui =
     (case load_data fs of
        Inl e \<Rightarrow> Raised e
      | Inr (msgs, None) \<Rightarrow>
          LoadFailed (msgs @ [''Failed to load data. Please check if the data files exist.''])
      | Inr (msgs, Some (crypto_df, stock_df)) \<Rightarrow>
          Dashboard (render fp crypto_df stock_df ui))"

text \<open>The \<open>.csv\<close> files of a directory, as both list comprehensions of \<open>load_data\<close>
  select them; a missing directory has none.\<close>

definition csv_files :: "filesystem \<Rightarrow> string \<Rightarrow> string list" where
  "csv_files fs d = filter (\<lambda>f. endswith f ''.csv'') (case listdir fs d of None \<Rightarrow> [] | Some l \<Rightarrow> l)"

section \<open>Example tables\<close>

text \<open>\<open>day n\<close> is midnight of day number \<open>n\<close>.\<close>

definition day :: "int \<Rightarrow> timestamp" where
  "day n = Some (n * ns_per_day)"

definition example_merged :: "merged_row list" where
  "example_merged =
     [\<lparr> date = day 9, fear_greed_index_crypto = Some 10, btc_price = Some 100,
         fear_greed_index_stock = Some 50, price = Some 7 \<rparr>,
      \<lparr> date = day 10, fear_greed_index_crypto = Some 20, btc_price = Some 110,
         fear_greed_index_stock = Some 40, price = Some 8 \<rparr>,
      \<lparr> date = day 40, fear_greed_index_crypto = Some 30, btc_price = Some 120,
         fear_greed_index_stock = Some 30, price = Some 9 \<rparr>]"

definition example_crypto :: "crypto_row list" where
  "example_crypto =
     [\<lparr> c_date = day 1, c_fear_greed_index = Some 10, c_btc_price = Some 100 \<rparr>,
      \<lparr> c_date = day 2, c_fear_greed_index = Some 20, c_btc_price = Some 110 \<rparr>,
      \<lparr> c_date = day 3, c_fear_greed_index = Some 30, c_btc_price = Some 120 \<rparr>]"

definition example_stock :: "stock_row list" where
  "example_stock =
     [\<lparr> s_date = day 2, s_fear_greed_index = Some 50, s_price = Some 7 \<rparr>,
      \<lparr> s_date = day 3, s_fear_greed_index = Some 40, s_price = Some 8 \<rparr>,
      \<lparr> s_date = day 4, s_fear_greed_index = Some 30, s_price = Some 9 \<rparr>]"

definition disjoint_crypto :: "crypto_row list" where
  "disjoint_crypto =
     [\<lparr> c_date = day 1, c_fear_greed_index = Some 10, c_btc_price = Some 100 \<rparr>,
      \<lparr> c_date = day 2, c_fear_greed_index = Some 20, c_btc_price = Some 110 \<rparr>]"

definition disjoint_stock :: "stock_row list" where
  "disjoint_stock =
     [\<lparr> s_date = day 5, s_fear_greed_index = Some 50, s_price = Some 7 \<rparr>,
      \<lparr> s_date = day 6, s_fear_greed_index = Some 40, s_price = Some 8 \<rparr>]"

text \<open>A file system whose two directories have the given listings (\<open>None\<close>: missing)
  and in which every file reads as the example table.\<close>

definition example_fs :: "string list option \<Rightarrow> string list option \<Rightarrow> filesystem" where
  "example_fs crypto_dir stock_dir =
     \<lparr> listdir = (\<lambda>d. if d = ''crypto_fg_index'' then crypto_dir
                       else if d = ''stock_fg_index'' then stock_dir else None),
       read_crypto = (\<lambda>p. Inr example_crypto),
       read_stock = (\<lambda>p. Inr example_stock) \<rparr>"

definition example_ui :: controls where
  "example_ui = \<lparr> date_range = [2, 3], correlation_period = ''All Time'' \<rparr>"

text \<open>A merged table whose crypto index and both prices do not vary.\<close>

definition flat_merged :: "merged_row list" where
  "flat_merged =
     [\<lparr> date = day 1, fear_greed_index_crypto = Some 50, btc_price = Some 100,
         fear_greed_index_stock = Some 40, price = Some 7 \<rparr>,
      \<lparr> date = day 2, fear_greed_index_crypto = Some 50, btc_price = Some 100,
         fear_greed_index_stock = Some 60, price = Some 7 \<rparr>]"

section \<open>Facts about the column minimum and maximum\<close>

lemma series_max_None: "series_max ts = None \<longleftrightarrow> (\<forall>t\<in>set ts. t = None)"
  by (induction ts rule: series_max.induct) (auto split: option.splits)

lemma series_max_Some:
  "series_max ts = Some M \<longleftrightarrow> Some M \<in> set ts \<and> (\<forall>d. Some d \<in> set ts \<longrightarrow> d \<le> M)"
proof (induction ts arbitrary: M rule: series_max.induct)
  case 1
  then show ?case by simp
next
  case (2 ts)
  then show ?case by auto
next
  case (3 a ts)
  show ?case
  proof (cases "series_max ts")
    case None
    then have "\<forall>t\<in>set ts. t = None" by (simp add: series_max_None)
    then show ?thesis using None by auto
  next
    case (Some b)
    then have b: "Some b \<in> set ts" "\<And>d. Some d \<in> set ts \<Longrightarrow> d \<le> b"
      using 3[of b] by auto
    have "series_max (Some a # ts) = Some (max a b)"
      using Some by simp
    moreover have "max a b = M" if "Some M \<in> set (Some a # ts)"
      and "\<forall>d. Some d \<in> set (Some a # ts) \<longrightarrow> d \<le> M"
    proof -
      have "a \<le> M" "b \<le> M" using that(2) b(1) by auto
      moreover have "M = a \<or> M \<le> b" using that(1) b(2) by auto
      ultimately show ?thesis by (auto simp: max_def)
    qed
    moreover have "Some (max a b) \<in> set (Some a # ts)"
      using b(1) by (simp add: max_def)
    moreover have "d \<le> max a b" if "Some d \<in> set (Some a # ts)" for d
      using that b(2)[of d] by (auto simp: max_def)
    ultimately show ?thesis by auto
  qed
qed

lemma series_min_None: "series_min ts = None \<longleftrightarrow> (\<forall>t\<in>set ts. t = None)"
  by (induction ts rule: series_min.induct) (auto split: option.splits)

lemma series_min_Some:
  "series_min ts = Some M \<longleftrightarrow> Some M \<in> set ts \<and> (\<forall>d. Some d \<in> set ts \<longrightarrow> M \<le> d)"
proof (induction ts arbitrary: M rule: series_min.induct)
  case 1
  then show ?case by simp
next
  case (2 ts)
  then show ?case by auto
next
  case (3 a ts)
  show ?case
  proof (cases "series_min ts")
    case None
    then have "\<forall>t\<in>set ts. t = None" by (simp add: series_min_None)
    then show ?thesis using None by auto
  next
    case (Some b)
    then have b: "Some b \<in> set ts" "\<And>d. Some d \<in> set ts \<Longrightarrow> b \<le> d"
      using 3[of b] by auto
    have "series_min (Some a # ts) = Some (min a b)"
      using Some by simp
    moreover have "min a b = M" if "Some M \<in> set (Some a # ts)"
      and "\<forall>d. Some d \<in> set (Some a # ts) \<longrightarrow> M \<le> d"
    proof -
      have "M \<le> a" "M \<le> b" using that(2) b(1) by auto
      moreover have "M = a \<or> b \<le> M" using that(1) b(2) by auto
      ultimately show ?thesis by (auto simp: min_def)
    qed
    moreover have "Some (min a b) \<in> set (Some a # ts)"
      using b(1) by (simp add: min_def)
    moreover have "min a b \<le> d" if "Some d \<in> set (Some a # ts)" for d
      using that b(2)[of d] by (auto simp: min_def)
    ultimately show ?thesis by auto
  qed
qed

lemma ts_ge_Some: "ts_ge t (Some b) \<longleftrightarrow> (\<exists>d. t = Some d \<and> b \<le> d)"
  by (cases t) auto

lemma ts_le_Some: "ts_le t (Some b) \<longleftrightarrow> (\<exists>d. t = Some d \<and> d \<le> b)"
  by (cases t) auto

section \<open>Loading\<close>

text \<open>When both directories hold a \<open>.csv\<close> file and both read, the dashboard is rendered
  from the two tables.\<close>

lemma app_loaded:
  assumes "listdir fs ''crypto_fg_index'' = Some cl" "listdir fs ''stock_fg_index'' = Some sl"
    and "max_str (filter (\<lambda>f. endswith f ''.csv'') cl) = Some cf"
    and "max_str (filter (\<lambda>f. endswith f ''.csv'') sl) = Some sf"
    and "read_crypto fs (path_join ''crypto_fg_index'' cf) = Inr c"
    and "read_stock fs (path_join ''stock_fg_index'' sf) = Inr s"
  shows "app fp fs ui = Dashboard (render fp c s ui)"
proof -
  have "filter (\<lambda>f. endswith f ''.csv'') cl \<noteq> []" "filter (\<lambda>f. endswith f ''.csv'') sl \<noteq> []"
    using assms(3,4) by auto
  then show ?thesis
    using assms by (simp add: app_def load_data_def Let_def)
qed

lemma app_example:
  "app fp (example_fs (Some [''2023-12-31.csv'', ''2024-01-01.csv'']) (Some [''a.csv''])) ui
     = Dashboard (render fp example_crypto example_stock ui)"
proof (rule app_loaded [where cf = "''2024-01-01.csv''" and sf = "''a.csv''"])
  show "max_str (filter (\<lambda>f. endswith f ''.csv'') [''2023-12-31.csv'', ''2024-01-01.csv''])
          = Some ''2024-01-01.csv''"
    by code_simp
  show "max_str (filter (\<lambda>f. endswith f ''.csv'') [''a.csv'']) = Some ''a.csv''"
    by code_simp
qed (simp_all add: example_fs_def)

text \<open>
  Whenever a directory is missing or holds no \<open>.csv\<close> file, no merged table, coefficient
  or insight is computed. A directory without \<open>.csv\<close> file makes \<open>load_data\<close> show "Data
  files not found!" and return no tables, after which the script shows "Failed to load
  data" and stops. A missing directory makes \<open>os.listdir\<close> raise, and nothing catches the
  exception.
\<close>

lemma load_failure_halts:
  assumes "listdir fs ''crypto_fg_index'' = None \<or> listdir fs ''stock_fg_index'' = None
           \<or> csv_files fs ''crypto_fg_index'' = [] \<or> csv_files fs ''stock_fg_index'' = []"
  shows "(app fp fs ui = Raised (FileNotFoundError ''crypto_fg_index'')
          \<or> app fp fs ui = Raised (FileNotFoundError ''stock_fg_index'')
          \<or> app fp fs ui = LoadFailed [''Data files not found!'',
                ''Failed to load data. Please check if the data files exist.''])
         \<and> (\<forall>d. app fp fs ui \<noteq> Dashboard d)
         \<and> (listdir fs ''crypto_fg_index'' \<noteq> None \<and> listdir fs ''stock_fg_index'' \<noteq> None
              \<longrightarrow> load_data fs = Inr ([''Data files not found!''], None))"
proof (cases "listdir fs ''crypto_fg_index''")
  case None
  then show ?thesis by (simp add: app_def load_data_def)
next
  case c: (Some cl)
  show ?thesis
  proof (cases "listdir fs ''stock_fg_index''")
    case None
    then show ?thesis using c by (simp add: app_def load_data_def Let_def)
  next
    case s: (Some sl)
    from assms c s have e: "filter (\<lambda>f. endswith f ''.csv'') cl = []
        \<or> filter (\<lambda>f. endswith f ''.csv'') sl = []"
      by (simp add: csv_files_def)
    have "load_data fs = Inr ([''Data files not found!''], None)"
      using e c s by (auto simp: load_data_def Let_def split: option.splits)
    then show ?thesis using c s by (simp add: app_def)
  qed
qed

text \<open>
  Claim C7. If either directory is empty or missing, loading fails, a user-visible error
  is presented and nothing is merged or correlated. The script does so for a directory
  without \<open>.csv\<close> file: \<open>load_data\<close> shows "Data files not found!" and returns no tables.
  For a missing directory it does not: \<open>os.listdir\<close> raises \<open>FileNotFoundError\<close> out of
  \<open>load_data\<close>, so neither that message nor "Failed to load data" is shown by the script.
\<close>

theorem missing_directory_raises:
  "load_data (example_fs None (Some [''2024-01-01.csv'']))
     = Inl (FileNotFoundError ''crypto_fg_index'')
   \<and> load_data (example_fs (Some [''2024-01-01.csv'']) None)
     = Inl (FileNotFoundError ''stock_fg_index'')
   \<and> load_data (example_fs (Some [''notes.txt'']) (Some [''2024-01-01.csv'']))
     = Inr ([''Data files not found!''], None)"
proof -
  have "filter (\<lambda>f. endswith f ''.csv'') [''notes.txt''] = []"
    by (simp add: endswith_def)
  then show ?thesis
    by (simp add: load_data_def example_fs_def Let_def)
qed

section \<open>The common date range and the inner join\<close>

text \<open>
  Claim C2, as the code has it. With a date in each table, \<open>min_date\<close> is the larger of the
  two minimum dates and \<open>max_date\<close> the smaller of the two maximum dates. When
  \<open>min_date\<close> is after \<open>max_date\<close> no error is raised: both filtered tables and the merged
  table are empty.
\<close>

theorem overlap_bounds:
  assumes "series_min (map c_date c) = Some a" and "series_min (map s_date s) = Some b"
    and "series_max (map c_date c) = Some a'" and "series_max (map s_date s) = Some b'"
  shows "min_date c s = Some (max a b) \<and> max_date c s = Some (min a' b')
         \<and> (max a b > min a' b' \<longrightarrow>
              crypto_filtered c s = [] \<and> stock_filtered c s = [] \<and> merged_df c s = [])"
proof -
  have mn: "min_date c s = Some (max a b)"
    using assms by (simp add: min_date_def py_max_def max_def)
  have mx: "max_date c s = Some (min a' b')"
    using assms by (simp add: max_date_def py_min_def min_def)
  have "\<not> (ts_ge t (Some (max a b)) \<and> ts_le t (Some (min a' b')))" if "max a b > min a' b'" for t
    using that by (cases t) auto
  then have "crypto_filtered c s = [] \<and> stock_filtered c s = []" if "max a b > min a' b'"
    using that by (simp add: crypto_filtered_def stock_filtered_def mn mx)
  then show ?thesis
    using mn mx by (simp add: merged_df_def pd_merge_def)
qed

theorem overlap_bounds_witness:
  "min_date disjoint_crypto disjoint_stock = day 5
   \<and> max_date disjoint_crypto disjoint_stock = day 2
   \<and> merged_df disjoint_crypto disjoint_stock = []"
  using overlap_bounds [of disjoint_crypto "1 * ns_per_day" disjoint_stock "5 * ns_per_day"
      "2 * ns_per_day" "6 * ns_per_day"]
  by (simp add: disjoint_crypto_def disjoint_stock_def day_def ns_per_day_def)

text \<open>
  Claim C2 as stated asks for a failure on disjoint date ranges. On the two disjoint
  example tables \<open>min_date\<close> is after \<open>max_date\<close> and the merge yields a table, the
  empty one.
\<close>

theorem no_overlap_counterexample:
  "ts_gt (min_date disjoint_crypto disjoint_stock) (max_date disjoint_crypto disjoint_stock)
   \<and> merged_df disjoint_crypto disjoint_stock = []"
  by (simp add: merged_df_def pd_merge_def crypto_filtered_def stock_filtered_def
      min_date_def max_date_def py_max_def py_min_def disjoint_crypto_def disjoint_stock_def
      day_def ns_per_day_def)

lemma merged_df_iff:
  "r \<in> set (merged_df c s) \<longleftrightarrow>
     (\<exists>cr\<in>set c. \<exists>sr\<in>set s.
        ts_ge (c_date cr) (min_date c s) \<and> ts_le (c_date cr) (max_date c s)
        \<and> s_date sr = c_date cr \<and> r = join_rows cr sr)"
  by (auto simp: merged_df_def pd_merge_def crypto_filtered_def stock_filtered_def)

lemma date_join_rows: "date (join_rows cr sr) = c_date cr"
  by (simp add: join_rows_def)

text \<open>
  Claim C4. The merged table is the inner join, on equal dates, of the two tables
  filtered to the range from \<open>min_date\<close> to \<open>max_date\<close>. Every merged row joins a crypto
  row and a stock row that both carry its date; a row whose date occurs in the other
  table nowhere has no merged row; and two rows with the same date inside the range do
  have their merged row.
\<close>

theorem inner_join_exact:
  "merged_df c s = pd_merge (crypto_filtered c s) (stock_filtered c s)
   \<and> (\<forall>r\<in>set (merged_df c s).
        \<exists>cr\<in>set c. \<exists>sr\<in>set s. c_date cr = date r \<and> s_date sr = date r \<and> r = join_rows cr sr)
   \<and> (\<forall>cr\<in>set c. (\<forall>sr\<in>set s. s_date sr \<noteq> c_date cr) \<longrightarrow>
        (\<forall>r\<in>set (merged_df c s). date r \<noteq> c_date cr))
   \<and> (\<forall>sr\<in>set s. (\<forall>cr\<in>set c. c_date cr \<noteq> s_date sr) \<longrightarrow>
        (\<forall>r\<in>set (merged_df c s). date r \<noteq> s_date sr))
   \<and> (\<forall>cr\<in>set c. \<forall>sr\<in>set s.
        c_date cr = s_date sr \<and> ts_ge (c_date cr) (min_date c s) \<and> ts_le (c_date cr) (max_date c s)
        \<longrightarrow> join_rows cr sr \<in> set (merged_df c s))"
proof -
  have a: "\<exists>cr\<in>set c. \<exists>sr\<in>set s. c_date cr = date r \<and> s_date sr = date r \<and> r = join_rows cr sr"
    if "r \<in> set (merged_df c s)" for r
  proof -
    from that obtain cr sr where "cr \<in> set c" "sr \<in> set s"
      "s_date sr = c_date cr" "r = join_rows cr sr"
      unfolding merged_df_iff by blast
    then show ?thesis
      by (intro bexI[of _ cr] bexI[of _ sr]) (simp_all add: date_join_rows)
  qed
  have b: "date r \<noteq> c_date cr"
    if "cr \<in> set c" "\<forall>sr\<in>set s. s_date sr \<noteq> c_date cr" "r \<in> set (merged_df c s)" for cr r
    using a[OF that(3)] that(2) by auto
  have b': "date r \<noteq> s_date sr"
    if "sr \<in> set s" "\<forall>cr\<in>set c. c_date cr \<noteq> s_date sr" "r \<in> set (merged_df c s)" for sr r
    using a[OF that(3)] that(2) by auto
  have d: "join_rows cr sr \<in> set (merged_df c s)"
    if "cr \<in> set c" "sr \<in> set s" "c_date cr = s_date sr"
       "ts_ge (c_date cr) (min_date c s)" "ts_le (c_date cr) (max_date c s)" for cr sr
    unfolding merged_df_iff
    by (rule bexI[of _ cr], rule bexI[of _ sr]) (use that in simp_all)
  show ?thesis
  proof (intro conjI)
    show "merged_df c s = pd_merge (crypto_filtered c s) (stock_filtered c s)"
      by (simp add: merged_df_def)
  qed (use a b b' d in blast)+
qed

theorem inner_join_exact_witness:
  "map date (merged_df example_crypto example_stock) = [day 2, day 3]
   \<and> day 1 \<in> c_date ` set example_crypto
   \<and> day 1 \<notin> s_date ` set example_stock
   \<and> day 1 \<notin> date ` set (merged_df example_crypto example_stock)"
proof -
  have m: "map date (merged_df example_crypto example_stock) = [day 2, day 3]"
    by (simp add: merged_df_def pd_merge_def crypto_filtered_def stock_filtered_def
        min_date_def max_date_def py_max_def py_min_def example_crypto_def example_stock_def
        day_def ns_per_day_def join_rows_def)
  have "\<forall>r\<in>set (merged_df example_crypto example_stock). date r \<noteq> day 1"
    using inner_join_exact [of example_crypto example_stock]
    by (simp add: example_crypto_def example_stock_def day_def ns_per_day_def)
  then have "day 1 \<notin> date ` set (merged_df example_crypto example_stock)"
    by auto
  then show ?thesis
    using m by (simp add: example_crypto_def example_stock_def day_def ns_per_day_def)
qed

section \<open>The correlation window\<close>

text \<open>
  Claim C9. With the period name "All Time" the correlation input is the merged table
  itself: no row is dropped and none is added.
\<close>

theorem corr_data_all_time: "corr_data m ''All Time'' = m"
  by (simp add: corr_data_def)

text \<open>
  Claim C5. Let \<open>M\<close> be the maximum date of the merged table. "All Time" applies no
  filter, and "Last 1 Year", "Last 6 Months", "Last 3 Months" and "Last 1 Month" keep
  exactly the rows dated at or after \<open>M\<close> minus 365, 180, 90 and 30 days. The bound is
  inclusive: a row dated exactly \<open>M\<close> minus the number of days is kept.
\<close>

theorem corr_data_window:
  assumes "Some M \<in> date ` set m"
    and "\<forall>r\<in>set m. \<forall>d. date r = Some d \<longrightarrow> d \<le> M"
    and "(p, n) \<in> {(''Last 1 Year'', 365), (''Last 6 Months'', 180),
                    (''Last 3 Months'', 90), (''Last 1 Month'', 30)}"
  shows "corr_data m ''All Time'' = m
       \<and> corr_data m p = filter (\<lambda>r. \<exists>d. date r = Some d \<and> d \<ge> M - n * ns_per_day) m
       \<and> (\<forall>r\<in>set m. date r = Some (M - n * ns_per_day) \<longrightarrow> r \<in> set (corr_data m p))"
proof -
  have mx: "series_max (map date m) = Some M"
    using assms(1,2) by (auto simp: series_max_Some)
  have ld: "last_days m k = filter (\<lambda>r. \<exists>d. date r = Some d \<and> d \<ge> M - k * ns_per_day) m" for k
    by (simp add: last_days_def mx Timedelta_days_def ts_ge_Some)
  have "corr_data m p = last_days m n"
    using assms(3) by (auto simp: corr_data_def)
  then show ?thesis by (simp add: ld corr_data_def)
qed

theorem corr_data_window_witness:
  "corr_data example_merged ''Last 1 Month'' = tl example_merged
   \<and> hd (tl example_merged) \<in> set (corr_data example_merged ''Last 1 Month'')
   \<and> date (hd (tl example_merged)) = Some (40 * ns_per_day - 30 * ns_per_day)"
  using corr_data_window [of "40 * ns_per_day" example_merged "''Last 1 Month''" 30]
  by (simp add: example_merged_def day_def ns_per_day_def)

text \<open>
  Claim C6. The chart view is the merged table restricted by the picked date range, the
  correlation input is the merged table restricted by the chosen period, and neither
  depends on the other control: changing the period leaves the chart view unchanged,
  and changing the date range leaves the correlation input and the coefficients
  unchanged.
\<close>

theorem views_independent:
  "chart_view (render fp c s ui) = merged_filtered (merged_df c s) (date_range ui)
   \<and> corr_input (render fp c s ui) = corr_data (merged_df c s) (correlation_period ui)
   \<and> chart_view (render fp c s (ui\<lparr>correlation_period := p\<rparr>)) = chart_view (render fp c s ui)
   \<and> corr_input (render fp c s (ui\<lparr>date_range := dr\<rparr>)) = corr_input (render fp c s ui)
   \<and> correlations (render fp c s (ui\<lparr>date_range := dr\<rparr>)) = correlations (render fp c s ui)
   \<and> merged_filtered (merged_df c s) [a, b]
       = filter (\<lambda>r. \<exists>d. date r = Some d \<and> a \<le> d div ns_per_day \<and> d div ns_per_day \<le> b)
           (merged_df c s)"
proof -
  have "dt_date t = Some x \<longleftrightarrow> (\<exists>d. t = Some d \<and> x = d div ns_per_day)" for t x
    by (cases t) auto
  then have "merged_filtered m [a, b]
       = filter (\<lambda>r. \<exists>d. date r = Some d \<and> a \<le> d div ns_per_day \<and> d div ns_per_day \<le> b) m" for m
    by (auto simp: merged_filtered_def ts_ge_Some ts_le_Some intro!: filter_cong)
  then show ?thesis by (simp add: render_def Let_def)
qed

section \<open>Correlation\<close>

text \<open>The Cauchy-Schwarz inequality for finite sums, by induction on the list of pairs.\<close>

lemma cauchy_schwarz_pairs:
  fixes ps :: "(real \<times> real) list"
  shows "(\<Sum>p\<leftarrow>ps. fst p * snd p)\<^sup>2 \<le> (\<Sum>p\<leftarrow>ps. (fst p)\<^sup>2) * (\<Sum>p\<leftarrow>ps. (snd p)\<^sup>2)"
proof (induction ps)
  case Nil
  then show ?case by simp
next
  case (Cons p ps)
  define A where "A = (\<Sum>p\<leftarrow>ps. (fst p)\<^sup>2)"
  define B where "B = (\<Sum>p\<leftarrow>ps. (snd p)\<^sup>2)"
  define C where "C = (\<Sum>p\<leftarrow>ps. fst p * snd p)"
  define a where "a = fst p"
  define b where "b = snd p"
  have A: "0 \<le> A" unfolding A_def by (rule sum_list_nonneg) auto
  have B: "0 \<le> B" unfolding B_def by (rule sum_list_nonneg) auto
  have ih: "C\<^sup>2 \<le> A * B" using Cons.IH by (simp add: A_def B_def C_def)
  define u where "u = A * b\<^sup>2"
  define v where "v = B * a\<^sup>2"
  define w where "w = C * a * b"
  have u: "0 \<le> u" and v: "0 \<le> v" using A B by (simp_all add: u_def v_def)
  have "w\<^sup>2 = C\<^sup>2 * (a\<^sup>2 * b\<^sup>2)" by (simp add: w_def power_mult_distrib)
  also have "\<dots> \<le> (A * B) * (a\<^sup>2 * b\<^sup>2)"
    by (rule mult_right_mono[OF ih]) simp
  also have "\<dots> = u * v" by (simp add: u_def v_def algebra_simps)
  finally have w2: "w\<^sup>2 \<le> u * v" .
  have "(2 * w)\<^sup>2 = 4 * w\<^sup>2" by (simp add: power_mult_distrib)
  also have "\<dots> \<le> 4 * (u * v)" using w2 by simp
  also have "\<dots> \<le> (u + v)\<^sup>2"
  proof -
    have "0 \<le> (u - v)\<^sup>2" by simp
    then show ?thesis by (simp add: power2_eq_square algebra_simps)
  qed
  finally have "(2 * w)\<^sup>2 \<le> (u + v)\<^sup>2" .
  moreover have "0 \<le> u + v" using u v by simp
  ultimately have "2 * w \<le> u + v"
    by (rule power2_le_imp_le)
  then have "(C + a * b)\<^sup>2 \<le> (A + a\<^sup>2) * (B + b\<^sup>2)"
    using ih by (simp add: u_def v_def w_def power2_eq_square algebra_simps)
  then show ?case
    by (simp add: A_def B_def C_def a_def b_def add.commute)
qed

lemma cov_dev_sum: "cov xs ys = dev_sum xs ys / (real (length xs) - 1)"
  by (simp add: cov_def dev_sum_def)

lemma dev_sum_self: "dev_sum xs xs = (\<Sum>x\<leftarrow>xs. (x - mean xs)\<^sup>2)"
  by (simp add: dev_sum_def zip_same_conv_map comp_def power2_eq_square)

lemma dev_sum_self_nonneg: "0 \<le> dev_sum xs xs"
  unfolding dev_sum_self by (rule sum_list_nonneg) auto

lemma dev_sum_self_zero_iff: "dev_sum xs xs = 0 \<longleftrightarrow> (\<forall>x\<in>set xs. x = mean xs)"
proof -
  have "dev_sum xs xs = 0 \<longleftrightarrow> (\<forall>v\<in>set (map (\<lambda>x. (x - mean xs)\<^sup>2) xs). v = 0)"
    unfolding dev_sum_self by (rule sum_list_nonneg_eq_0_iff) auto
  then show ?thesis by auto
qed

lemma mean_constant: "xs \<noteq> [] \<Longrightarrow> \<forall>x\<in>set xs. x = k \<Longrightarrow> mean xs = k"
proof -
  assume ne: "xs \<noteq> []" and k: "\<forall>x\<in>set xs. x = k"
  have "xs = replicate (length xs) k"
    using k by (simp add: replicate_length_same)
  then have "sum_list xs = real (length xs) * k"
    by (metis sum_list_replicate)
  then show ?thesis using ne by (simp add: mean_def)
qed

lemma cov_self_zero_iff:
  assumes "2 \<le> length xs"
  shows "cov xs xs = 0 \<longleftrightarrow> (\<exists>k. \<forall>x\<in>set xs. x = k)"
proof -
  have ne: "xs \<noteq> []" using assms by auto
  have "cov xs xs = 0 \<longleftrightarrow> dev_sum xs xs = 0"
    using assms by (simp add: cov_dev_sum)
  also have "\<dots> \<longleftrightarrow> (\<exists>k. \<forall>x\<in>set xs. x = k)"
    unfolding dev_sum_self_zero_iff using mean_constant[OF ne] by blast
  finally show ?thesis .
qed

lemma dev_sum_cauchy_schwarz:
  assumes "length xs = length ys"
  shows "(dev_sum xs ys)\<^sup>2 \<le> dev_sum xs xs * dev_sum ys ys"
proof -
  define ps where "ps = map (\<lambda>(x, y). (x - mean xs, y - mean ys)) (zip xs ys)"
  have 1: "(\<Sum>p\<leftarrow>ps. fst p * snd p) = dev_sum xs ys"
    by (simp add: ps_def dev_sum_def comp_def case_prod_unfold)
  have "(\<Sum>p\<leftarrow>ps. (fst p)\<^sup>2) = (\<Sum>x\<leftarrow>map fst (zip xs ys). (x - mean xs)\<^sup>2)"
    by (simp add: ps_def comp_def case_prod_unfold)
  then have 2: "(\<Sum>p\<leftarrow>ps. (fst p)\<^sup>2) = dev_sum xs xs"
    using assms by (simp add: dev_sum_self)
  have "(\<Sum>p\<leftarrow>ps. (snd p)\<^sup>2) = (\<Sum>y\<leftarrow>map snd (zip xs ys). (y - mean ys)\<^sup>2)"
    by (simp add: ps_def comp_def case_prod_unfold)
  then have 3: "(\<Sum>p\<leftarrow>ps. (snd p)\<^sup>2) = dev_sum ys ys"
    using assms by (simp add: dev_sum_self)
  show ?thesis
    using cauchy_schwarz_pairs[of ps] unfolding 1 2 3 .
qed

lemma pearson_in_unit_interval:
  assumes len: "length xs = length ys" and n: "2 \<le> length xs"
    and vx: "cov xs xs \<noteq> 0" and vy: "cov ys ys \<noteq> 0"
  shows "\<bar>cov xs ys / sqrt (cov xs xs) / sqrt (cov ys ys)\<bar> \<le> 1"
proof -
  define d where "d = real (length xs) - 1"
  have d: "0 < d" using n by (simp add: d_def)
  have dy: "real (length ys) - 1 = d" using len by (simp add: d_def)
  have cxx: "cov xs xs = dev_sum xs xs / d" and cyy: "cov ys ys = dev_sum ys ys / d"
    and cxy: "cov xs ys = dev_sum xs ys / d"
    by (simp_all add: cov_dev_sum d_def dy[unfolded d_def])
  have px: "0 < cov xs xs"
    using vx dev_sum_self_nonneg[of xs] d unfolding cxx
    by (metis divide_nonneg_pos less_eq_real_def)
  have py: "0 < cov ys ys"
    using vy dev_sum_self_nonneg[of ys] d unfolding cyy
    by (metis divide_nonneg_pos less_eq_real_def)
  have "(cov xs ys)\<^sup>2 = (dev_sum xs ys)\<^sup>2 / d\<^sup>2"
    by (simp add: cxy power_divide)
  also have "\<dots> \<le> (dev_sum xs xs * dev_sum ys ys) / d\<^sup>2"
    using dev_sum_cauchy_schwarz[OF len] d by (simp add: divide_right_mono)
  also have "\<dots> = cov xs xs * cov ys ys"
    by (simp add: cxx cyy power2_eq_square)
  finally have "\<bar>cov xs ys\<bar> \<le> sqrt (cov xs xs * cov ys ys)"
    by (metis real_le_rsqrt power2_abs)
  then have "\<bar>cov xs ys\<bar> \<le> sqrt (cov xs xs) * sqrt (cov ys ys)"
    by (simp add: real_sqrt_mult)
  moreover have "0 < sqrt (cov xs xs) * sqrt (cov ys ys)"
    using px py by simp
  ultimately have le: "\<bar>cov xs ys\<bar> / (sqrt (cov xs xs) * sqrt (cov ys ys)) \<le> 1"
    by (simp add: divide_le_eq)
  have eq: "\<bar>cov xs ys / sqrt (cov xs xs) / sqrt (cov ys ys)\<bar>
      = \<bar>cov xs ys\<bar> / (sqrt (cov xs xs) * sqrt (cov ys ys))"
    using px py by (simp add: abs_mult)
  show ?thesis unfolding eq by (rule le)
qed

text \<open>Without rounding the clip never acts: the quotient lies in \<open>[-1, 1]\<close> already.\<close>

lemma exact_pearson_clip:
  assumes "length xs = length ys" and "2 \<le> length xs"
  shows "clip (exact_pearson xs ys) =
           (if cov xs xs = 0 \<or> cov ys ys = 0 then None
            else Some (cov xs ys / sqrt (cov xs xs) / sqrt (cov ys ys)))"
proof (cases "cov xs xs = 0 \<or> cov ys ys = 0")
  case True
  then show ?thesis by (simp add: exact_pearson_def)
next
  case False
  define q where "q = cov xs ys / sqrt (cov xs xs) / sqrt (cov ys ys)"
  have "\<bar>q\<bar> \<le> 1"
    unfolding q_def using pearson_in_unit_interval[OF assms] False by blast
  then have "clip (FNum q) = Some q"
    by (simp add: abs_le_iff)
  then show ?thesis
    using False unfolding q_def by (simp only: exact_pearson_def if_False)
qed

text \<open>Without rounding the quotient is NaN for a constant series and for no other.\<close>

lemma exact_pearson_NaN_iff:
  assumes "length xs = length ys" and "2 \<le> length xs"
  shows "exact_pearson xs ys = FNaN \<longleftrightarrow>
           (\<exists>k. \<forall>x\<in>set xs. x = k) \<or> (\<exists>k. \<forall>y\<in>set ys. y = k)"
  using assms by (simp add: exact_pearson_def cov_self_zero_iff)

lemma clip_range: "unit_or_nan (clip v)"
  by (cases v) (simp_all add: unit_or_nan_def)

lemma clip_None_iff: "clip v = None \<longleftrightarrow> v = FNaN"
  by (cases v) simp_all

lemma corr_range: "unit_or_nan (corr fp a b)"
  by (simp add: corr_def corrcoef_def Let_def clip_range) (simp add: unit_or_nan_def)

lemma corr_None_iff: "corr fp a b = None \<longleftrightarrow> undefined_input fp a b"
  by (auto simp: corr_def corrcoef_def undefined_input_def Let_def clip_None_iff)

text \<open>
  Claim C8. Each of the four coefficients that \<open>correlate\<close> produces is either undefined
  (NaN) or a number between \<open>-1\<close> and \<open>1\<close>, whatever float64 arithmetic computes. No NaN
  is turned into a number, zero or other: a coefficient is NaN exactly when fewer than
  two pairs are present in both of its columns or the float64 quotient is NaN.
\<close>

theorem correlate_range:
  "unit_or_nan (correlation_fg (correlate fp cd))
   \<and> unit_or_nan (correlation_price (correlate fp cd))
   \<and> unit_or_nan (correlation_price_fg_crypto (correlate fp cd))
   \<and> unit_or_nan (correlation_price_fg_stock (correlate fp cd))
   \<and> (correlation_fg (correlate fp cd) = None \<longleftrightarrow>
        undefined_input fp (map fear_greed_index_crypto cd) (map fear_greed_index_stock cd))
   \<and> (correlation_price (correlate fp cd) = None \<longleftrightarrow>
        undefined_input fp (map btc_price cd) (map price cd))
   \<and> (correlation_price_fg_crypto (correlate fp cd) = None \<longleftrightarrow>
        undefined_input fp (map btc_price cd) (map fear_greed_index_crypto cd))
   \<and> (correlation_price_fg_stock (correlate fp cd) = None \<longleftrightarrow>
        undefined_input fp (map price cd) (map fear_greed_index_stock cd))"
  by (simp add: correlate_def corr_range corr_None_iff)

text \<open>The spec's scenario of two opposite sentiment series: the coefficient is \<open>-1\<close>.\<close>

lemma sqrt_100: "sqrt 100 = 10"
  using real_sqrt_abs[of 10] by simp

lemma example_corr_fg: "correlation_fg (correlate exact_pearson example_merged) = Some (- 1)"
  by (simp add: correlate_def example_merged_def corr_def corrcoef_def valid_pairs_def
      List.map_filter_def exact_pearson_def cov_def mean_def sqrt_100)

text \<open>
  Claim C1, as the code has it. When fewer than two pairs are present in both series,
  or the float64 quotient is NaN, the coefficient is NaN and not zero. The insight text
  takes the NaN without raising: both comparisons of its absolute value are false, so
  the "Weak correlation" sentence is produced with the field showing the NaN.
\<close>

theorem undefined_is_nan_weak:
  assumes "undefined_input fp a b"
  shows "corr fp a b = None \<and> corr fp a b \<noteq> Some 0
    \<and> insight_fg (corr fp a b) =
        [Lit ''Weak correlation ('', F2 None,
         Lit '') between crypto and stock market sentiment, suggesting these markets may be driven by different factors.'']
    \<and> insight_price (corr fp a b) =
        [Lit ''Weak correlation ('', F2 None,
         Lit '') between Bitcoin and S&P 500 prices, suggesting Bitcoin may still offer diversification benefits.'']"
proof -
  have "corr fp a b = None" using assms by (simp add: corr_None_iff)
  then show ?thesis by (simp add: insight_fg_def insight_price_def)
qed

lemma flat_corr_fg: "correlation_fg (correlate exact_pearson flat_merged) = None"
  by (simp add: correlate_def flat_merged_def corr_def corrcoef_def valid_pairs_def
      List.map_filter_def exact_pearson_def cov_def mean_def)

theorem undefined_is_nan_weak_witness:
  "corr exact_pearson (map fear_greed_index_crypto flat_merged)
        (map fear_greed_index_stock flat_merged) = None
   \<and> bucket (insight_fg (corr exact_pearson (map fear_greed_index_crypto flat_merged)
                               (map fear_greed_index_stock flat_merged))) = ''Weak''"
proof -
  have d: "undefined_input exact_pearson (map fear_greed_index_crypto flat_merged)
                      (map fear_greed_index_stock flat_merged)"
    by (simp add: undefined_input_def flat_merged_def valid_pairs_def
        List.map_filter_def exact_pearson_def cov_def mean_def)
  show ?thesis
    using undefined_is_nan_weak [OF d] by (simp add: insight_fg_def)
qed

text \<open>
  Claim C1 as stated asks that the undefined coefficient is not consumed silently by the
  insight text. On a table whose crypto index is 50 on both days the coefficient is NaN
  and the first insight is the "Weak correlation" sentence.
\<close>

theorem nan_insight_counterexample:
  "correlation_fg (correlate exact_pearson flat_merged) = None
   \<and> hd (insights (correlate exact_pearson flat_merged)) =
        [Lit ''Weak correlation ('', F2 None,
         Lit '') between crypto and stock market sentiment, suggesting these markets may be driven by different factors.'']"
  using flat_corr_fg by (simp add: insights_def insight_fg_def)

section \<open>Insights\<close>

text \<open>
  Claim C10. Exactly two insights are produced, the first from the coefficient of the
  two sentiment indices and the second from the coefficient of the two prices; the two
  coefficients of a price against a sentiment index have no influence on them.
\<close>

theorem two_insights:
  "length (insights c) = 2
   \<and> insights c = [insight_fg (correlation_fg c), insight_price (correlation_price c)]
   \<and> insights (c\<lparr>correlation_price_fg_crypto := u, correlation_price_fg_stock := v\<rparr>) = insights c
   \<and> insight_cards (render fp cr st ui) = insights (correlations (render fp cr st ui))"
  by (simp add: insights_def render_def Let_def)

lemma weak_fg_plain:
  "\<not> directional [Lit ''Weak correlation ('', F2 r,
         Lit '') between crypto and stock market sentiment, suggesting these markets may be driven by different factors.'']"
  by (simp add: directional_def)

lemma weak_price_plain:
  "\<not> directional [Lit ''Weak correlation ('', F2 r,
         Lit '') between Bitcoin and S&P 500 prices, suggesting Bitcoin may still offer diversification benefits.'']"
  by (simp add: directional_def)

lemma directional_Cons:
  "directional (Lit ''Strong '' # Lit ''positive'' # ps)"
  "directional (Lit ''Strong '' # Lit ''negative'' # ps)"
  "directional (Lit ''Moderate '' # Lit ''positive'' # ps)"
  "directional (Lit ''Moderate '' # Lit ''negative'' # ps)"
  by (simp_all add: directional_def)

text \<open>
  Claim C3. For a real coefficient \<open>r\<close> the insight is "Strong" iff \<open>\<bar>r\<bar> > 0.7\<close>,
  "Moderate" iff \<open>0.3 < \<bar>r\<bar> \<le> 0.7\<close> and "Weak" iff \<open>\<bar>r\<bar> \<le> 0.3\<close>; at \<open>0.7\<close> it is
  "Moderate" and at \<open>0.3\<close> it is "Weak". Words of direction occur exactly in the strong
  and moderate insights, chosen by the sign of \<open>r\<close>, and never in the weak one.
\<close>

theorem classify_thresholds:
  "(bucket (insight_fg (Some r)) = ''Strong'' \<longleftrightarrow> \<bar>r\<bar> > 7 / 10)
   \<and> (bucket (insight_fg (Some r)) = ''Moderate'' \<longleftrightarrow> 3 / 10 < \<bar>r\<bar> \<and> \<bar>r\<bar> \<le> 7 / 10)
   \<and> (bucket (insight_fg (Some r)) = ''Weak'' \<longleftrightarrow> \<bar>r\<bar> \<le> 3 / 10)
   \<and> (bucket (insight_price (Some r)) = ''Strong'' \<longleftrightarrow> \<bar>r\<bar> > 7 / 10)
   \<and> (bucket (insight_price (Some r)) = ''Moderate'' \<longleftrightarrow> 3 / 10 < \<bar>r\<bar> \<and> \<bar>r\<bar> \<le> 7 / 10)
   \<and> (bucket (insight_price (Some r)) = ''Weak'' \<longleftrightarrow> \<bar>r\<bar> \<le> 3 / 10)
   \<and> bucket (insight_fg (Some (7 / 10))) = ''Moderate''
   \<and> bucket (insight_fg (Some (3 / 10))) = ''Weak''
   \<and> (directional (insight_fg (Some r)) \<longleftrightarrow> \<bar>r\<bar> > 3 / 10)
   \<and> (directional (insight_price (Some r)) \<longleftrightarrow> \<bar>r\<bar> > 3 / 10)
   \<and> (\<bar>r\<bar> > 3 / 10 \<longrightarrow>
        (mentions ''positive'' (insight_fg (Some r)) \<longleftrightarrow> r > 0)
      \<and> (mentions ''negative'' (insight_fg (Some r)) \<longleftrightarrow> \<not> r > 0)
      \<and> (mentions ''positive'' (insight_price (Some r)) \<longleftrightarrow> r > 0)
      \<and> (mentions ''negative'' (insight_price (Some r)) \<longleftrightarrow> \<not> r > 0))
   \<and> (\<bar>r\<bar> > 7 / 10 \<longrightarrow>
        (mentions ''together'' (insight_fg (Some r)) \<longleftrightarrow> r > 0)
      \<and> (mentions ''opposite directions'' (insight_fg (Some r)) \<longleftrightarrow> \<not> r > 0))"
proof -
  have b_fg: "bucket (insight_fg (Some r)) =
      (if \<bar>r\<bar> > 7 / 10 then ''Strong'' else if \<bar>r\<bar> > 3 / 10 then ''Moderate'' else ''Weak'')" for r
    by (simp add: insight_fg_def)
  have b_pr: "bucket (insight_price (Some r)) =
      (if \<bar>r\<bar> > 7 / 10 then ''Strong'' else if \<bar>r\<bar> > 3 / 10 then ''Moderate'' else ''Weak'')" for r
    by (simp add: insight_price_def)
  have d_fg: "directional (insight_fg (Some r)) \<longleftrightarrow> \<bar>r\<bar> > 3 / 10"
    unfolding insight_fg_def by (simp add: directional_Cons weak_fg_plain del: mentions.simps)
  have d_pr: "directional (insight_price (Some r)) \<longleftrightarrow> \<bar>r\<bar> > 3 / 10"
    unfolding insight_price_def by (simp add: directional_Cons weak_price_plain del: mentions.simps)
  have m1: "\<bar>r\<bar> > 3 / 10 \<longrightarrow>
        (mentions ''positive'' (insight_fg (Some r)) \<longleftrightarrow> r > 0)
      \<and> (mentions ''negative'' (insight_fg (Some r)) \<longleftrightarrow> \<not> r > 0)"
    by (simp add: insight_fg_def)
  have m2: "\<bar>r\<bar> > 3 / 10 \<longrightarrow>
        (mentions ''positive'' (insight_price (Some r)) \<longleftrightarrow> r > 0)
      \<and> (mentions ''negative'' (insight_price (Some r)) \<longleftrightarrow> \<not> r > 0)"
    by (simp add: insight_price_def)
  have m3: "\<bar>r\<bar> > 7 / 10 \<longrightarrow>
        (mentions ''together'' (insight_fg (Some r)) \<longleftrightarrow> r > 0)
      \<and> (mentions ''opposite directions'' (insight_fg (Some r)) \<longleftrightarrow> \<not> r > 0)"
    by (simp add: insight_fg_def)
  have b1: "bucket (insight_fg (Some (7 / 10))) = ''Moderate''"
    by (simp add: b_fg)
  have b2: "bucket (insight_fg (Some (3 / 10))) = ''Weak''"
    by (simp add: b_fg)
  show ?thesis
    unfolding b_fg b_pr using d_fg d_pr m1 m2 m3 b1 b2 by (simp add: b_fg)
qed

theorem classify_thresholds_witness:
  "\<bar>- 8 / 10 :: real\<bar> > 7 / 10
   \<and> bucket (insight_fg (Some (- 8 / 10))) = ''Strong''
   \<and> mentions ''negative'' (insight_fg (Some (- 8 / 10)))
   \<and> mentions ''opposite directions'' (insight_fg (Some (- 8 / 10)))
   \<and> \<not> mentions ''together'' (insight_fg (Some (- 8 / 10)))"
  using classify_thresholds [of "- 8 / 10"] by simp

end
